theory Spec2Isabelle
  imports Main "HOL-Library.Sublist"
begin

section \<open>Run-time values\<close>

text \<open>
  The analytics response is parsed JSON typed \<^verbatim>\<open>any\<close>, so the code inspects values
  whose shape is only known at run time. \<open>jsval\<close> is the run-time value: the JSON
  kinds plus \<^verbatim>\<open>undefined\<close>, which a property read of a missing key yields. An
  object is the list of its own properties.

  Numbers are the run time's own (IEEE doubles in Node): a type \<open>'n\<close> that the model
  never computes with by itself. Every operation the program performs on a number
  (adding, comparing with 0, testing for truthiness, converting to text) is taken from
  the host, see \<open>host\<close> below, so that rounding, fractions and infinities are the run
  time's and not the model's.
\<close>

datatype 'n jsval =
    Undefined
  | Null
  | Bool bool
  | Num 'n
  | Str string
  | Arr "'n jsval list"
  | Obj "(string \<times> 'n jsval) list"

text \<open>A thrown value: an \<^verbatim>\<open>Error\<close> with its message, or anything else. The messages of
  the run time's own \<^verbatim>\<open>TypeError\<close>s are those of Node's engine; nothing below depends
  on their wording.\<close>

datatype exn = ErrorObj string | NonError

section \<open>The host\<close>

text \<open>
  What the program takes from its run time and its libraries, as parameters:
  \<^item> the arithmetic of numbers: the literal \<^verbatim>\<open>0\<close>, \<^verbatim>\<open>a + b\<close>, whether a number is falsy
    (zero or not-a-number), whether \<^verbatim>\<open>n > 0\<close>, the number that stands for a byte count,
    and the text a template literal inserts for a number;
  \<^item> the per-byte emissions model of the \<^verbatim>\<open>co2\<close> object, applied to whatever run-time
    value it is handed and taken to return a number;
  \<^item> \<^verbatim>\<open>JSON.stringify\<close> and \<^verbatim>\<open>path.join\<close>;
  \<^item> the comparison \<^verbatim>\<open>v > 0\<close> for a value \<open>v\<close> that is a string, an array or an object
    and must first be coerced, which may throw.
\<close>

record 'n host =
  num_zero :: 'n
  num_add :: "'n \<Rightarrow> 'n \<Rightarrow> 'n"
  num_falsy :: "'n \<Rightarrow> bool"
  num_gt0 :: "'n \<Rightarrow> bool"
  num_of_nat :: "nat \<Rightarrow> 'n"
  num_text :: "'n \<Rightarrow> string"
  perByte :: "'n jsval \<Rightarrow> bool \<Rightarrow> 'n"
  stringify :: "'n jsval \<Rightarrow> string"
  path_join :: "string \<Rightarrow> string \<Rightarrow> string"
  coerced_gt0 :: "'n jsval \<Rightarrow> exn + bool"

section \<open>Reading run-time values\<close>

text \<open>Truthiness, as \<^verbatim>\<open>if (v)\<close>, \<^verbatim>\<open>!v\<close>, \<^verbatim>\<open>a || b\<close> and \<^verbatim>\<open>a && b\<close> decide it.\<close>

fun truthy :: "'n host \<Rightarrow> 'n jsval \<Rightarrow> bool" where
  "truthy h Undefined = False"
| "truthy h Null = False"
| "truthy h (Bool b) = b"
| "truthy h (Num n) = (\<not> num_falsy h n)"
| "truthy h (Str s) = (s \<noteq> [])"
| "truthy h (Arr xs) = True"
| "truthy h (Obj kvs) = True"

fun nullish :: "'n jsval \<Rightarrow> bool" where
  "nullish Undefined = True"
| "nullish Null = True"
| "nullish v = False"

text \<open>
  \<^verbatim>\<open>v.k\<close> for the keys the program reads by name (\<^verbatim>\<open>errors\<close>, \<^verbatim>\<open>data\<close>, \<^verbatim>\<open>viewer\<close>,
  \<^verbatim>\<open>zones\<close>, \<^verbatim>\<open>httpRequests1dGroups\<close>, \<^verbatim>\<open>dimensions\<close>, \<^verbatim>\<open>date\<close>, \<^verbatim>\<open>sum\<close>, \<^verbatim>\<open>requests\<close>,
  \<^verbatim>\<open>bytes\<close>), on a value that is neither \<^verbatim>\<open>null\<close> nor \<^verbatim>\<open>undefined\<close>. An object yields
  its own property; no built-in prototype defines any of these keys, so everything else
  is \<^verbatim>\<open>undefined\<close>. The one other read, \<^verbatim>\<open>.length\<close>, is \<open>length_gt0\<close> below.
\<close>

fun get_prop :: "'n jsval \<Rightarrow> string \<Rightarrow> 'n jsval" where
  "get_prop (Obj kvs) k = (case map_of kvs k of None \<Rightarrow> Undefined | Some v \<Rightarrow> v)"
| "get_prop v k = Undefined"

text \<open>\<^verbatim>\<open>v?.k\<close>: short-circuits to \<^verbatim>\<open>undefined\<close> on \<^verbatim>\<open>null\<close> and \<^verbatim>\<open>undefined\<close>.\<close>

definition opt_get :: "'n jsval \<Rightarrow> string \<Rightarrow> 'n jsval" where
  "opt_get v k = (if nullish v then Undefined else get_prop v k)"

text \<open>\<^verbatim>\<open>v?.[0]\<close>.\<close>

fun opt_first :: "'n jsval \<Rightarrow> 'n jsval" where
  "opt_first (Arr xs) = (case xs of [] \<Rightarrow> Undefined | x # _ \<Rightarrow> x)"
| "opt_first (Str s) = (case s of [] \<Rightarrow> Undefined | c # _ \<Rightarrow> Str [c])"
| "opt_first (Obj kvs) = (case map_of kvs ''0'' of None \<Rightarrow> Undefined | Some v \<Rightarrow> v)"
| "opt_first v = Undefined"

text \<open>\<^verbatim>\<open>a ?? b\<close>.\<close>

definition nullish_or :: "'n jsval \<Rightarrow> 'n jsval \<Rightarrow> 'n jsval" where
  "nullish_or a b = (if nullish a then b else a)"

text \<open>\<^verbatim>\<open>lines.join("\n")\<close>.\<close>

fun join_lines :: "string list \<Rightarrow> string" where
  "join_lines [] = []"
| "join_lines [l] = l"
| "join_lines (l # m # ls) = l @ CHR 0x0A # join_lines (m # ls)"

definition bool_text :: "bool \<Rightarrow> string" where
  "bool_text b = (if b then ''true'' else ''false'')"

text \<open>
  What a template literal \<^verbatim>\<open>${v}\<close> inserts for a run-time value, or the error it throws.
  An object is converted through its \<^verbatim>\<open>toString\<close>: the inherited one gives
  \<^verbatim>\<open>[object Object]\<close>, but an own property of that name (parsed JSON can have one, and
  it is never a function) hides it, the inherited \<^verbatim>\<open>valueOf\<close> gives no primitive, and
  the conversion throws. An array joins the texts of its elements with commas, empty
  for \<^verbatim>\<open>null\<close> and \<^verbatim>\<open>undefined\<close>, and throws when an element does.
\<close>

fun to_text :: "'n host \<Rightarrow> 'n jsval \<Rightarrow> exn + string"
  and elems_text :: "'n host \<Rightarrow> 'n jsval list \<Rightarrow> exn + string" where
  "to_text h Undefined = Inr ''undefined''"
| "to_text h Null = Inr ''null''"
| "to_text h (Bool b) = Inr (bool_text b)"
| "to_text h (Num n) = Inr (num_text h n)"
| "to_text h (Str s) = Inr s"
| "to_text h (Arr xs) = elems_text h xs"
| "to_text h (Obj kvs) =
     (case map_of kvs ''toString'' of
        None \<Rightarrow> Inr ''[object Object]''
      | Some v \<Rightarrow> Inl (ErrorObj ''Cannot convert object to primitive value''))"
| "elems_text h [] = Inr []"
| "elems_text h [x] = (if nullish x then Inr [] else to_text h x)"
| "elems_text h (x # y # ys) =
     (case (if nullish x then Inr [] else to_text h x) of
        Inl e \<Rightarrow> Inl e
      | Inr t \<Rightarrow>
          (case elems_text h (y # ys) of
             Inl e \<Rightarrow> Inl e
           | Inr r \<Rightarrow> Inr (t @ CHR '','' # r)))"

section \<open>The analytics result and the report\<close>

text \<open>
  \<^verbatim>\<open>CloudflareAnalyticsResult\<close>. The totals are sums the fetcher computes, so they are
  numbers; a day's fields are whatever the response held (the casts in the fetcher do
  not check them), so they stay run-time values.
\<close>

record 'n day =
  date :: "'n jsval"
  requests :: "'n jsval"
  bytes :: "'n jsval"

record 'n analytics =
  zone_id :: string
  time_range_since :: string
  time_range_until :: string
  totals_requests :: 'n
  totals_bytes :: 'n
  daily :: "'n day list"

text \<open>
  The nine lines pushed first. \<open>nowIso\<close> is the one reading of the clock,
  \<^verbatim>\<open>new Date().toISOString()\<close>, taken before the first push.
\<close>

definition header_lines :: "'n host \<Rightarrow> string \<Rightarrow> 'n \<Rightarrow> bool \<Rightarrow> 'n \<Rightarrow> string list" where
  "header_lines h nowIso nbytes greenHosting estimatedCO2 =
     [''# Generated by CO2.js GitHub Action'',
      ''version = \"0.3\"'',
      ''last_updated = \"'' @ nowIso @ ''\"'',
      [],
      ''[build]'',
      ''date = \"'' @ nowIso @ ''\"'',
      ''total_bytes = '' @ num_text h nbytes,
      ''green_hosting = '' @ bool_text greenHosting,
      ''estimated_co2_grams = '' @ num_text h estimatedCO2]"

text \<open>The eight lines pushed for the \<^verbatim>\<open>[cloudflare]\<close> section when analytics are present.\<close>

definition section_lines :: "'n host \<Rightarrow> bool \<Rightarrow> 'n analytics \<Rightarrow> string list" where
  "section_lines h greenHosting a =
     [[],
      ''[cloudflare]'',
      ''zone_id = \"'' @ zone_id a @ ''\"'',
      ''since = \"'' @ time_range_since a @ ''\"'',
      ''until = \"'' @ time_range_until a @ ''\"'',
      ''requests = '' @ num_text h (totals_requests a),
      ''bytes = '' @ num_text h (totals_bytes a),
      ''estimated_co2_grams = '' @
         num_text h (perByte h (Num (totals_bytes a)) greenHosting)]"

text \<open>
  The loop over \<^verbatim>\<open>cloudflareAnalytics.daily\<close>: six pushes per day. The three template
  literals convert the day's fields in the order date, requests, bytes; the first
  conversion that throws ends the composer.
\<close>

fun push_days ::
  "'n host \<Rightarrow> bool \<Rightarrow> string list \<Rightarrow> 'n day list \<Rightarrow> exn + string list" where
  "push_days h green lines [] = Inr lines"
| "push_days h green lines (d # ds) =
     (case to_text h (date d) of
        Inl e \<Rightarrow> Inl e
      | Inr date_text \<Rightarrow>
          (case to_text h (requests d) of
             Inl e \<Rightarrow> Inl e
           | Inr requests_text \<Rightarrow>
               (case to_text h (bytes d) of
                  Inl e \<Rightarrow> Inl e
                | Inr bytes_text \<Rightarrow>
                    push_days h green
                      (lines @
                        [[],
                         ''[[cloudflare.daily]]'',
                         ''date = \"'' @ date_text @ ''\"'',
                         ''requests = '' @ requests_text,
                         ''bytes = '' @ bytes_text,
                         ''estimated_co2_grams = '' @ num_text h (perByte h (bytes d) green)])
                      ds)))"

text \<open>The \<^verbatim>\<open>lines\<close> array of \<^verbatim>\<open>buildCarbonTxt\<close> when it returns, or what it throws.\<close>

definition carbon_lines ::
  "'n host \<Rightarrow> string \<Rightarrow> 'n \<Rightarrow> bool \<Rightarrow> 'n \<Rightarrow> 'n analytics option \<Rightarrow> exn + string list" where
  "carbon_lines h nowIso nbytes greenHosting estimatedCO2 cloudflareAnalytics =
     (case cloudflareAnalytics of
        None \<Rightarrow> Inr (header_lines h nowIso nbytes greenHosting estimatedCO2)
      | Some a \<Rightarrow>
          push_days h greenHosting
            (header_lines h nowIso nbytes greenHosting estimatedCO2 @
             section_lines h greenHosting a)
            (daily a))"

definition buildCarbonTxt ::
  "'n host \<Rightarrow> string \<Rightarrow> 'n \<Rightarrow> bool \<Rightarrow> 'n \<Rightarrow> 'n analytics option \<Rightarrow> exn + string" where
  "buildCarbonTxt h nowIso nbytes greenHosting estimatedCO2 cloudflareAnalytics =
     (case carbon_lines h nowIso nbytes greenHosting estimatedCO2 cloudflareAnalytics of
        Inl e \<Rightarrow> Inl e
      | Inr lines \<Rightarrow> Inr (join_lines lines))"

section \<open>The analytics fetcher\<close>

record config =
  apiToken :: "string option"
  zoneId :: "string option"
  since :: "string option"
  until :: "string option"
  enabled :: bool

text \<open>\<^verbatim>\<open>a || b\<close> on an optional string with a string default.\<close>

fun or_default :: "string option \<Rightarrow> string \<Rightarrow> string" where
  "or_default None d = d"
| "or_default (Some s) d = (if s \<noteq> [] then s else d)"

text \<open>
  One reading of the clock in the fetcher: \<^verbatim>\<open>now.toISOString()\<close>, and the same for the
  instant thirty days earlier.
\<close>

record instant =
  iso_now :: string
  iso_30_days_before :: string

text \<open>
  The POST to the GraphQL endpoint: the bearer header and the three query variables
  (the query text is a constant). The network answers a request with a response or
  throws; \<^verbatim>\<open>response.json()\<close> gives the parsed body or throws.
\<close>

record request =
  url :: string
  authorization :: string
  zoneTag :: string
  var_since :: string
  var_until :: string

record 'n response =
  ok :: bool
  status :: 'n
  statusText :: string
  json :: "exn + 'n jsval"

definition resolved_since :: "config \<Rightarrow> instant \<Rightarrow> string" where
  "resolved_since cfg now =
     take 10 (or_default (since cfg) (take 10 (iso_30_days_before now)))"

definition resolved_until :: "config \<Rightarrow> instant \<Rightarrow> string" where
  "resolved_until cfg now = take 10 (or_default (until cfg) (take 10 (iso_now now)))"

definition analytics_request :: "string \<Rightarrow> string \<Rightarrow> config \<Rightarrow> instant \<Rightarrow> request" where
  "analytics_request token zone cfg now =
     \<lparr>url = ''https://api.cloudflare.com/client/v4/graphql'',
      authorization = ''Bearer '' @ token,
      zoneTag = zone,
      var_since = resolved_since cfg now,
      var_until = resolved_until cfg now\<rparr>"

text \<open>
  \<^verbatim>\<open>v > 0\<close> for a property value \<open>v\<close>: the host decides it for a number; \<^verbatim>\<open>undefined\<close>
  and \<^verbatim>\<open>null\<close> are not greater than 0, \<^verbatim>\<open>true\<close> is; strings, arrays and objects are
  coerced by the run time, which may throw.
\<close>

fun gt0 :: "'n host \<Rightarrow> 'n jsval \<Rightarrow> exn + bool" where
  "gt0 h (Num n) = Inr (num_gt0 h n)"
| "gt0 h Undefined = Inr False"
| "gt0 h Null = Inr False"
| "gt0 h (Bool b) = Inr b"
| "gt0 h v = coerced_gt0 h v"

text \<open>
  \<^verbatim>\<open>v.length > 0\<close> on a value that is neither \<^verbatim>\<open>null\<close> nor \<^verbatim>\<open>undefined\<close>: an array or a
  string has a positive length when it is not empty; an object is read for an own
  \<^verbatim>\<open>length\<close> property; a number or a boolean has none.
\<close>

fun length_gt0 :: "'n host \<Rightarrow> 'n jsval \<Rightarrow> exn + bool" where
  "length_gt0 h (Arr xs) = Inr (xs \<noteq> [])"
| "length_gt0 h (Str s) = Inr (s \<noteq> [])"
| "length_gt0 h (Obj kvs) =
     (case map_of kvs ''length'' of None \<Rightarrow> Inr False | Some l \<Rightarrow> gt0 h l)"
| "length_gt0 h v = Inr False"

text \<open>
  \<^verbatim>\<open>data.errors && data.errors.length > 0\<close>. Reading a property of \<^verbatim>\<open>null\<close> throws.
\<close>

definition errors_present :: "'n host \<Rightarrow> 'n jsval \<Rightarrow> exn + bool" where
  "errors_present h data =
     (if nullish data
      then Inl (ErrorObj ''Cannot read properties of null (reading 'errors')'')
      else let errors = get_prop data ''errors''
           in if truthy h errors then length_gt0 h errors else Inr False)"

text \<open>
  \<^verbatim>\<open>data?.data?.viewer?.zones?.[0]?.httpRequests1dGroups ?? []\<close>
\<close>

definition groups_of :: "'n jsval \<Rightarrow> 'n jsval" where
  "groups_of data =
     nullish_or
       (opt_get
          (opt_first (opt_get (opt_get (opt_get data ''data'') ''viewer'') ''zones''))
          ''httpRequests1dGroups'')
       (Arr [])"

text \<open>
  What \<^verbatim>\<open>for (const group of groups)\<close> visits: the elements of an array, the
  characters of a string; any other value is not iterable and the loop throws.
\<close>

fun iterate :: "'n jsval \<Rightarrow> exn + 'n jsval list" where
  "iterate (Arr xs) = Inr xs"
| "iterate (Str s) = Inr (map (\<lambda>c. Str [c]) s)"
| "iterate v = Inl (ErrorObj ''groups is not iterable'')"

definition group_date :: "'n jsval \<Rightarrow> 'n jsval" where
  "group_date g = opt_get (opt_get g ''dimensions'') ''date''"

definition group_requests :: "'n host \<Rightarrow> 'n jsval \<Rightarrow> 'n jsval" where
  "group_requests h g =
     nullish_or (opt_get (opt_get g ''sum'') ''requests'') (Num (num_zero h))"

definition group_bytes :: "'n host \<Rightarrow> 'n jsval \<Rightarrow> 'n jsval" where
  "group_bytes h g = nullish_or (opt_get (opt_get g ''sum'') ''bytes'') (Num (num_zero h))"

text \<open>\<^verbatim>\<open>if (typeof v === "number") total += v\<close>, in the run time's arithmetic.\<close>

fun add_number :: "'n host \<Rightarrow> 'n \<Rightarrow> 'n jsval \<Rightarrow> 'n" where
  "add_number h acc (Num n) = num_add h acc n"
| "add_number h acc v = acc"

text \<open>
  The loop over the groups, with its three accumulators \<^verbatim>\<open>totalRequests\<close>,
  \<^verbatim>\<open>totalBytes\<close> and \<^verbatim>\<open>daily\<close>.
\<close>

fun fold_groups ::
  "'n host \<Rightarrow> 'n \<Rightarrow> 'n \<Rightarrow> 'n day list \<Rightarrow> 'n jsval list \<Rightarrow> 'n \<times> 'n \<times> 'n day list" where
  "fold_groups h totalRequests totalBytes dl [] = (totalRequests, totalBytes, dl)"
| "fold_groups h totalRequests totalBytes dl (g # gs) =
     fold_groups h
       (add_number h totalRequests (group_requests h g))
       (add_number h totalBytes (group_bytes h g))
       (if truthy h (group_date g)
        then dl @ [\<lparr>date = group_date g, requests = group_requests h g,
                    bytes = group_bytes h g\<rparr>]
        else dl)
       gs"

text \<open>
  The body of the \<^verbatim>\<open>try\<close> block, entered with both credentials in hand (\<open>token\<close>
  and \<open>zone\<close> are \<^verbatim>\<open>config.apiToken\<close> and \<^verbatim>\<open>config.zoneId\<close>): the warnings it emits,
  and how it ends (a thrown value on the left, the returned value on the right).
\<close>

definition try_fetch ::
  "'n host \<Rightarrow> (request \<Rightarrow> exn + 'n response) \<Rightarrow> string \<Rightarrow> string \<Rightarrow> config \<Rightarrow> instant
     \<Rightarrow> string list \<times> (exn + 'n analytics option)" where
  "try_fetch h fetch token zone cfg now =
     (case fetch (analytics_request token zone cfg now) of
        Inl e \<Rightarrow> ([], Inl e)
      | Inr resp \<Rightarrow>
          if \<not> ok resp
          then ([''Cloudflare API request failed: '' @ num_text h (status resp) @ '' '' @
                   statusText resp], Inr None)
          else
            (case json resp of
               Inl e \<Rightarrow> ([], Inl e)
             | Inr data \<Rightarrow>
                 (case errors_present h data of
                    Inl e \<Rightarrow> ([], Inl e)
                  | Inr True \<Rightarrow>
                      ([''Cloudflare API returned errors: '' @
                          stringify h (get_prop data ''errors'')], Inr None)
                  | Inr False \<Rightarrow>
                      (case iterate (groups_of data) of
                         Inl e \<Rightarrow> ([], Inl e)
                       | Inr gs \<Rightarrow>
                           (case fold_groups h (num_zero h) (num_zero h) [] gs of
                              (totalRequests, totalBytes, dl) \<Rightarrow>
                                ([], Inr (Some
                                  \<lparr>zone_id = zone,
                                   time_range_since = resolved_since cfg now,
                                   time_range_until = resolved_until cfg now,
                                   totals_requests = totalRequests,
                                   totals_bytes = totalBytes,
                                   daily = dl\<rparr>)))))))"

text \<open>
  \<^verbatim>\<open>fetchCloudflareAnalytics\<close>: the warnings passed to \<^verbatim>\<open>core.warning\<close>, in order, and
  the outcome: \<open>Inl\<close> would be an error reaching the caller, \<open>Inr None\<close> is \<^verbatim>\<open>null\<close>.
  The test \<^verbatim>\<open>!config.apiToken || !config.zoneId\<close> is one of truthiness: an optional
  string is falsy when it is \<^verbatim>\<open>undefined\<close> (\<open>None\<close>) and when it is empty.
\<close>

definition skipping :: "string list \<times> (exn + 'n analytics option)" where
  "skipping =
     ([''Cloudflare analytics enabled but api token or zone id not provided; skipping Cloudflare integration.''],
      Inr None)"

definition fetchCloudflareAnalytics ::
  "'n host \<Rightarrow> (request \<Rightarrow> exn + 'n response) \<Rightarrow> instant \<Rightarrow> config
     \<Rightarrow> string list \<times> (exn + 'n analytics option)" where
  "fetchCloudflareAnalytics h fetch now cfg =
     (if \<not> enabled cfg then ([], Inr None)
      else
        (case (apiToken cfg, zoneId cfg) of
           (Some token, Some zone) \<Rightarrow>
             if token = [] \<or> zone = [] then skipping
             else
               (case try_fetch h fetch token zone cfg now of
                  (ws, Inr r) \<Rightarrow> (ws, Inr r)
                | (ws, Inl e) \<Rightarrow>
                    (ws @ [''Failed to fetch Cloudflare analytics: '' @
                             (case e of ErrorObj m \<Rightarrow> m
                                      | NonError \<Rightarrow> ''Unknown Cloudflare error'')],
                     Inr None))
         | _ \<Rightarrow> skipping))"

section \<open>The byte accountant\<close>

text \<open>
  The file system as \<^verbatim>\<open>fs.existsSync\<close> and \<^verbatim>\<open>fs.statSync\<close> see it: a path string names a
  node or nothing. A node is a regular file, a directory with its entries by name, or
  something that is neither (a FIFO, a socket, a device); each carries the size
  \<^verbatim>\<open>stat\<close> reports for it. Symbolic links are followed by \<^verbatim>\<open>stat\<close> and are not modelled.
\<close>

datatype node =
    File nat
  | Dir nat "(string \<times> node) list"
  | Special nat

fun isFile :: "node \<Rightarrow> bool" where
  "isFile (File n) = True"
| "isFile v = False"

fun isDirectory :: "node \<Rightarrow> bool" where
  "isDirectory (Dir n es) = True"
| "isDirectory v = False"

fun stat_size :: "node \<Rightarrow> nat" where
  "stat_size (File n) = n"
| "stat_size (Dir n es) = n"
| "stat_size (Special n) = n"

text \<open>
  The call \<^verbatim>\<open>glob("**/*", {cwd, ignore: ["**/.git/**", "**/node_modules/**"], nodir: true,
  absolute: true})\<close>. The \<^verbatim>\<open>glob\<close> package is a dependency and not part of the repository;
  the walk below follows the matching rules its documentation gives for this pattern and
  these options:
  \<^item> the \<^verbatim>\<open>dot\<close> option is not set, so neither \<^verbatim>\<open>*\<close> nor \<^verbatim>\<open>**\<close> matches a path
    portion whose first character is a dot: such an entry is not reported and, when it
    is a directory, not entered;
  \<^item> an \<^verbatim>\<open>ignore\<close> pattern ending in \<^verbatim>\<open>/**\<close> excludes the named entry and everything
    below it, at any depth;
  \<^item> \<^verbatim>\<open>nodir\<close> leaves directories themselves out of the result.
  Each reported path (its portions below \<^verbatim>\<open>cwd\<close>) is paired with the node it names,
  which is what \<^verbatim>\<open>fs.statSync\<close> reads in the loop that follows.
\<close>

definition dot_name :: "string \<Rightarrow> bool" where
  "dot_name name = (case name of [] \<Rightarrow> False | c # _ \<Rightarrow> c = CHR ''.'')"

definition ignored :: "string \<Rightarrow> bool" where
  "ignored name = (name = ''.git'' \<or> name = ''node_modules'')"

fun glob_node :: "string list \<Rightarrow> node \<Rightarrow> (string list \<times> node) list"
  and glob_entries :: "string list \<Rightarrow> (string \<times> node) list \<Rightarrow> (string list \<times> node) list" where
  "glob_node p (Dir n es) = glob_entries p es"
| "glob_node p (File n) = [(p, File n)]"
| "glob_node p (Special n) = [(p, Special n)]"
| "glob_entries p [] = []"
| "glob_entries p ((name, v) # es) =
     (if dot_name name \<or> ignored name then [] else glob_node (p @ [name]) v) @
     glob_entries p es"

text \<open>The loop \<^verbatim>\<open>for (const file of files) totalBytes += fs.statSync(file).size\<close>.\<close>

fun add_sizes :: "nat \<Rightarrow> (string list \<times> node) list \<Rightarrow> nat" where
  "add_sizes totalBytes [] = totalBytes"
| "add_sizes totalBytes ((file, v) # files) = add_sizes (totalBytes + stat_size v) files"

definition calculateBytes :: "(string \<Rightarrow> node option) \<Rightarrow> string \<Rightarrow> exn + nat" where
  "calculateBytes fs targetPath =
     (case fs targetPath of
        None \<Rightarrow> Inl (ErrorObj (''Path not found: '' @ targetPath))
      | Some stats \<Rightarrow>
          if isFile stats then Inr (stat_size stats)
          else if isDirectory stats
          then Inr (add_sizes 0 (glob_node [] stats))
          else Inr 0)"

section \<open>The orchestrator\<close>

text \<open>
  What a run sees of the outside: the action's inputs (\<^verbatim>\<open>core.getInput\<close>, the empty
  string for an input that is not set), the file system, the network, the two readings
  of the clock (one in the fetcher, one in the composer), and what the two writes to
  the file system do: \<^verbatim>\<open>fs.mkdirSync(destination, {recursive: true})\<close> and
  \<^verbatim>\<open>fs.writeFileSync(reportPath, carbonTxt)\<close> either succeed (\<open>None\<close>) or throw.
\<close>

record 'n world =
  inputs :: "string \<Rightarrow> string"
  fs :: "string \<Rightarrow> node option"
  network :: "request \<Rightarrow> exn + 'n response"
  fetch_clock :: instant
  build_clock :: string
  mkdirSync :: "string \<Rightarrow> exn option"
  writeFileSync :: "string \<Rightarrow> string \<Rightarrow> exn option"

text \<open>
  What a run does to the outside, in order: lines on the console, warnings, the named
  output, the failure signal (\<^verbatim>\<open>core.setFailed\<close>), a directory made and a file written.
\<close>

datatype 'n event =
    Log string
  | Warning string
  | SetOutput string 'n
  | SetFailed string
  | Mkdir string
  | WriteFile string string

text \<open>\<^verbatim>\<open>core.getInput(name) || d\<close>\<close>

definition input_or :: "'n world \<Rightarrow> string \<Rightarrow> string \<Rightarrow> string" where
  "input_or w name d = (if inputs w name = [] then d else inputs w name)"

text \<open>The \<^verbatim>\<open>catch\<close> of \<^verbatim>\<open>run\<close>: only an \<^verbatim>\<open>Error\<close> is reported.\<close>

fun catch_run :: "exn \<Rightarrow> 'n event list" where
  "catch_run (ErrorObj m) = [SetFailed m]"
| "catch_run NonError = []"

definition cloudflareConfig :: "'n world \<Rightarrow> config" where
  "cloudflareConfig w =
     \<lparr>apiToken = Some (inputs w ''cloudflare-api-token''),
      zoneId = Some (inputs w ''cloudflare-zone-id''),
      since = Some (inputs w ''cloudflare-since''),
      until = Some (inputs w ''cloudflare-until''),
      enabled = (inputs w ''cloudflare-enabled'' = ''true'')\<rparr>"

text \<open>
  The last steps of \<^verbatim>\<open>run\<close>, from the check of the destination on: the directory is
  made when it does not exist, then the report is written; an exception from either
  write goes to the \<^verbatim>\<open>catch\<close>.
\<close>

definition write_report :: "'n host \<Rightarrow> 'n world \<Rightarrow> string \<Rightarrow> string \<Rightarrow> 'n event list" where
  "write_report h w destination carbonTxt =
     (case (if fs w destination = None then mkdirSync w destination else None) of
        Some e \<Rightarrow> catch_run e
      | None \<Rightarrow>
          (let made = (if fs w destination = None then [Mkdir destination] else []);
               reportPath = path_join h destination ''report.txt''
           in case writeFileSync w reportPath carbonTxt of
                Some e \<Rightarrow> made @ catch_run e
              | None \<Rightarrow>
                  made @
                  [WriteFile reportPath carbonTxt,
                   Log (''Created report.txt at '' @ reportPath)]))"

definition run :: "'n host \<Rightarrow> 'n world \<Rightarrow> 'n event list" where
  "run h w =
     (let inputPath = input_or w ''path'' ''.'';
          greenHosting = (inputs w ''green-hosting'' = ''true'');
          destination = input_or w ''destination'' ''.'';
          cloudflareEnabled = (inputs w ''cloudflare-enabled'' = ''true'');
          started =
            [Log (''Measuring size for path: '' @ inputPath),
             Log (''Green hosting: '' @ bool_text greenHosting),
             Log (''Destination: '' @ destination),
             Log (''Cloudflare integration enabled: '' @ bool_text cloudflareEnabled)]
      in case calculateBytes (fs w) inputPath of
           Inl e \<Rightarrow> started @ catch_run e
         | Inr nbytes \<Rightarrow>
             (let estimatedCO2 = perByte h (Num (num_of_nat h nbytes)) greenHosting;
                  measured =
                    [Log (''Total bytes: '' @ num_text h (num_of_nat h nbytes)),
                     Log (''Estimated CO2 emissions: '' @ num_text h estimatedCO2 @ '' grams''),
                     SetOutput ''emissions'' estimatedCO2]
              in case fetchCloudflareAnalytics h (network w) (fetch_clock w)
                        (cloudflareConfig w) of
                   (ws, Inl e) \<Rightarrow> started @ measured @ map Warning ws @ catch_run e
                 | (ws, Inr cloudflareAnalytics) \<Rightarrow>
                     (case buildCarbonTxt h (build_clock w) (num_of_nat h nbytes) greenHosting
                             estimatedCO2 cloudflareAnalytics of
                        Inl e \<Rightarrow> started @ measured @ map Warning ws @ catch_run e
                      | Inr carbonTxt \<Rightarrow>
                          started @ measured @ map Warning ws @
                          write_report h w destination carbonTxt)))"

section \<open>Reading a run\<close>

text \<open>The failure messages of a run and the files it writes, in order.\<close>

fun failures :: "'g event list \<Rightarrow> string list" where
  "failures [] = []"
| "failures (SetFailed m # es) = m # failures es"
| "failures (e # es) = failures es"

fun written :: "'g event list \<Rightarrow> (string \<times> string) list" where
  "written [] = []"
| "written (WriteFile p t # es) = (p, t) # written es"
| "written (e # es) = written es"

fun warnings :: "'g event list \<Rightarrow> string list" where
  "warnings [] = []"
| "warnings (Warning m # es) = m # warnings es"
| "warnings (e # es) = warnings es"

section \<open>The claims' own notions\<close>

text \<open>The lines of a text: what splitting it at every line break gives.\<close>

fun text_lines :: "string \<Rightarrow> string list" where
  "text_lines [] = [[]]"
| "text_lines (c # cs) =
     (if c = CHR 0x0A then [] # text_lines cs
      else (case text_lines cs of [] \<Rightarrow> [[c]] | l # ls \<Rightarrow> (c # l) # ls))"


text \<open>How many lines of a text are the line \<^verbatim>\<open>[[cloudflare.daily]]\<close>.\<close>

definition marker_count :: "string \<Rightarrow> nat" where
  "marker_count t = length (filter (\<lambda>l. l = ''[[cloudflare.daily]]'') (text_lines t))"

text \<open>
  A value converts when a template literal can insert it; \<open>text_of\<close> is the text it
  inserts then. A day converts when its three fields do.
\<close>

definition converts :: "'n host \<Rightarrow> 'n jsval \<Rightarrow> bool" where
  "converts h v = (case to_text h v of Inl e \<Rightarrow> False | Inr t \<Rightarrow> True)"

definition text_of :: "'n host \<Rightarrow> 'n jsval \<Rightarrow> string" where
  "text_of h v = (case to_text h v of Inl e \<Rightarrow> [] | Inr t \<Rightarrow> t)"

definition day_converts :: "'n host \<Rightarrow> 'n day \<Rightarrow> bool" where
  "day_converts h d = (converts h (date d) \<and> converts h (requests d) \<and> converts h (bytes d))"

text \<open>
  The six lines one day contributes to the report: the \<^verbatim>\<open>[[cloudflare.daily]]\<close> block
  of that day, with its date, requests and bytes.
\<close>

definition daily_block :: "'n host \<Rightarrow> bool \<Rightarrow> 'n day \<Rightarrow> string list" where
  "daily_block h green d =
     [[],
      ''[[cloudflare.daily]]'',
      ''date = \"'' @ text_of h (date d) @ ''\"'',
      ''requests = '' @ text_of h (requests d),
      ''bytes = '' @ text_of h (bytes d),
      ''estimated_co2_grams = '' @ num_text h (perByte h (bytes d) green)]"

text \<open>
  The lines of the report for an analytics result as the claim describes them: the
  header, the \<^verbatim>\<open>[cloudflare]\<close> section, then the block of each day in the order of the
  daily sequence.
\<close>

definition expected_lines ::
  "'n host \<Rightarrow> string \<Rightarrow> 'n \<Rightarrow> bool \<Rightarrow> 'n \<Rightarrow> 'n analytics \<Rightarrow> string list" where
  "expected_lines h nowIso nbytes green est a =
     header_lines h nowIso nbytes green est @ section_lines h green a @
     concat (map (daily_block h green) (daily a))"


text \<open>
  What a numeric sub-field of a group brings to a total: a missing one (absent or
  \<^verbatim>\<open>null\<close>) brings the number 0, a number brings itself, and a value that is not a
  number brings nothing.
\<close>

fun field_number :: "'n host \<Rightarrow> 'n jsval \<Rightarrow> 'n option" where
  "field_number h Undefined = Some (num_zero h)"
| "field_number h Null = Some (num_zero h)"
| "field_number h (Num n) = Some n"
| "field_number h v = None"

text \<open>
  The sum of a list of numbers as the run time computes it: from 0, adding one number
  after the other in the order of the list.
\<close>

definition num_sum :: "'n host \<Rightarrow> 'n list \<Rightarrow> 'n" where
  "num_sum h ns = foldl (num_add h) (num_zero h) ns"

text \<open>A value that is present and cannot be iterated: a number, a boolean, an object.\<close>

fun not_iterable :: "'n jsval \<Rightarrow> bool" where
  "not_iterable (Num n) = True"
| "not_iterable (Bool b) = True"
| "not_iterable (Obj kvs) = True"
| "not_iterable v = False"

text \<open>
  The byte count as the specification words it: the sizes of all regular files below a
  directory, at any depth, leaving out what lies under a directory named \<^verbatim>\<open>.git\<close> or
  \<^verbatim>\<open>node_modules\<close>.
\<close>

fun regular_bytes :: "node \<Rightarrow> nat"
  and regular_bytes_entries :: "(string \<times> node) list \<Rightarrow> nat" where
  "regular_bytes (File n) = n"
| "regular_bytes (Special n) = 0"
| "regular_bytes (Dir n es) = regular_bytes_entries es"
| "regular_bytes_entries [] = 0"
| "regular_bytes_entries ((name, v) # es) =
     (if isDirectory v \<and> ignored name then 0 else regular_bytes v) +
     regular_bytes_entries es"

text \<open>
  A tree on which the walk and the specification's sum meet: no name starts with a dot,
  the names \<^verbatim>\<open>.git\<close> and \<^verbatim>\<open>node_modules\<close> belong to directories only, and what is
  neither file nor directory has size 0.
\<close>

fun plain :: "node \<Rightarrow> bool"
  and plain_entries :: "(string \<times> node) list \<Rightarrow> bool" where
  "plain (File n) = True"
| "plain (Special n) = (n = 0)"
| "plain (Dir n es) = plain_entries es"
| "plain_entries [] = True"
| "plain_entries ((name, v) # es) =
     (\<not> dot_name name \<and> (isDirectory v \<or> \<not> ignored name) \<and> plain v \<and> plain_entries es)"

section \<open>Concrete inputs\<close>

text \<open>Decimal text of a count, for a host to try the program on.\<close>

definition digit :: "nat \<Rightarrow> char" where
  "digit d =
     (if d = 0 then CHR ''0'' else if d = 1 then CHR ''1'' else if d = 2 then CHR ''2''
      else if d = 3 then CHR ''3'' else if d = 4 then CHR ''4'' else if d = 5 then CHR ''5''
      else if d = 6 then CHR ''6'' else if d = 7 then CHR ''7'' else if d = 8 then CHR ''8''
      else CHR ''9'')"

fun digits :: "nat \<Rightarrow> string" where
  "digits n = (if n < 10 then [digit n] else digits (n div 10) @ [digit (n mod 10)])"

definition decimal :: "int \<Rightarrow> string" where
  "decimal i = (if i < 0 then CHR ''-'' # digits (nat (- i)) else digits (nat i))"

text \<open>
  A host whose numbers are the integers, with a toy emissions model in whole
  milligrams: two per byte, one when the hosting is green.
\<close>

definition toy_host :: "int host" where
  "toy_host =
     \<lparr>num_zero = 0,
      num_add = (\<lambda>a b. a + b),
      num_falsy = (\<lambda>n. n = 0),
      num_gt0 = (\<lambda>n. 0 < n),
      num_of_nat = int,
      num_text = decimal,
      perByte = (\<lambda>v green. case v of Num n \<Rightarrow> (if green then n else 2 * n) | _ \<Rightarrow> 0),
      stringify = (\<lambda>v. ''[...]''),
      path_join = (\<lambda>a b. a @ ''/'' @ b),
      coerced_gt0 = (\<lambda>v. Inr False)\<rparr>"

definition noon :: instant where
  "noon = \<lparr>iso_now = ''2024-01-31T12:00:00.000Z'',
           iso_30_days_before = ''2024-01-01T12:00:00.000Z''\<rparr>"

definition full_config :: config where
  "full_config =
     \<lparr>apiToken = Some ''token'', zoneId = Some ''zone'', since = None, until = None,
      enabled = True\<rparr>"

text \<open>A two-day response with a third group that has no date and no byte count.\<close>

definition two_days :: "int jsval" where
  "two_days =
     Obj [(''data'', Obj [(''viewer'', Obj [(''zones'', Arr [Obj [(''httpRequests1dGroups'',
       Arr [Obj [(''dimensions'', Obj [(''date'', Str ''2024-01-01'')]),
                 (''sum'', Obj [(''requests'', Num 10), (''bytes'', Num 1000)])],
            Obj [(''dimensions'', Obj [(''date'', Str ''2024-01-02'')]),
                 (''sum'', Obj [(''requests'', Num 5), (''bytes'', Num 500)])],
            Obj [(''sum'', Obj [(''requests'', Num 1)])]])]])])])]"

text \<open>The result for two days, as the composer receives it.\<close>

definition two_day_result :: "int analytics" where
  "two_day_result =
     \<lparr>zone_id = ''zone'',
      time_range_since = ''2024-01-01'',
      time_range_until = ''2024-01-31'',
      totals_requests = 15,
      totals_bytes = 1500,
      daily =
        [\<lparr>date = Str ''2024-01-01'', requests = Num 10, bytes = Num 1000\<rparr>,
         \<lparr>date = Str ''2024-01-02'', requests = Num 5, bytes = Num 500\<rparr>]\<rparr>"

text \<open>
  A result of one day whose date is a string holding line breaks and, between them, the
  text of a marker line; and the report composed for it.
\<close>

definition broken_date :: string where
  "broken_date =
     ''x\"'' @ [CHR 0x0A, CHR 0x0A] @ ''[[cloudflare.daily]]'' @ [CHR 0x0A] @ ''date = \"y''"

definition one_day_result :: "int analytics" where
  "one_day_result =
     \<lparr>zone_id = ''zone'',
      time_range_since = ''2024-01-01'',
      time_range_until = ''2024-01-31'',
      totals_requests = 10,
      totals_bytes = 1000,
      daily = [\<lparr>date = Str broken_date, requests = Num 10, bytes = Num 1000\<rparr>]\<rparr>"

definition one_day_report :: string where
  "one_day_report =
     join_lines
       [''# Generated by CO2.js GitHub Action'',
        ''version = \"0.3\"'',
        ''last_updated = \"2024-01-31T12:00:01.000Z\"'',
        [],
        ''[build]'',
        ''date = \"2024-01-31T12:00:01.000Z\"'',
        ''total_bytes = 350'',
        ''green_hosting = false'',
        ''estimated_co2_grams = 700'',
        [],
        ''[cloudflare]'',
        ''zone_id = \"zone\"'',
        ''since = \"2024-01-01\"'',
        ''until = \"2024-01-31\"'',
        ''requests = 10'',
        ''bytes = 1000'',
        ''estimated_co2_grams = 2000'',
        [],
        ''[[cloudflare.daily]]'',
        ''date = \"x\"'',
        [],
        ''[[cloudflare.daily]]'',
        ''date = \"y\"'',
        ''requests = 10'',
        ''bytes = 1000'',
        ''estimated_co2_grams = 2000'']"

text \<open>A response whose daily groups are a number instead of an array.\<close>

definition odd_groups :: "int jsval" where
  "odd_groups =
     Obj [(''data'', Obj [(''viewer'', Obj [(''zones'',
       Arr [Obj [(''httpRequests1dGroups'', Num 5)]])])])]"

definition answering :: "int jsval \<Rightarrow> request \<Rightarrow> exn + int response" where
  "answering body req = Inr \<lparr>ok = True, status = 200, statusText = ''OK'', json = Inr body\<rparr>"

definition unauthorized :: "request \<Rightarrow> exn + int response" where
  "unauthorized req =
     Inr \<lparr>ok = False, status = 403, statusText = ''Forbidden'', json = Inr Null\<rparr>"

text \<open>A site of two files, one of them a dot file.\<close>

definition site :: node where
  "site = Dir 4096 [(''.htaccess'', File 100), (''index.html'', File 250)]"

definition site_fs :: "string \<Rightarrow> node option" where
  "site_fs p = (if p = ''site'' then Some site
                else if p = ''site/.htaccess'' then Some (File 100)
                else if p = ''site/index.html'' then Some (File 250)
                else if p = ''.'' then Some (Dir 4096 [(''site'', site)])
                else if p = ''/dev/null'' then Some (Special 0)
                else None)"

definition site_world :: "int world" where
  "site_world =
     \<lparr>inputs = (\<lambda>name.
        if name = ''path'' then ''site''
        else if name = ''cloudflare-enabled'' then ''true''
        else if name = ''cloudflare-api-token'' then ''token''
        else if name = ''cloudflare-zone-id'' then ''zone''
        else []),
      fs = site_fs,
      network = unauthorized,
      fetch_clock = noon,
      build_clock = ''2024-01-31T12:00:01.000Z'',
      mkdirSync = (\<lambda>p. None),
      writeFileSync = (\<lambda>p t. None)\<rparr>"

definition lost_world :: "int world" where
  "lost_world = site_world\<lparr>inputs := (\<lambda>name. if name = ''path'' then ''dist'' else [])\<rparr>"

section \<open>Properties of the report\<close>

lemma push_days_blocks:
  "list_all (day_converts h) ds \<Longrightarrow>
     push_days h green ls ds = Inr (ls @ concat (map (daily_block h green) ds))"
  by (induction ds arbitrary: ls)
     (auto simp: day_converts_def converts_def text_of_def daily_block_def split: sum.splits)

lemma push_days_throws:
  "\<not> list_all (day_converts h) ds \<Longrightarrow> \<exists>e. push_days h green ls ds = Inl e"
  by (induction ds arbitrary: ls)
     (auto simp: day_converts_def converts_def split: sum.splits)

lemma push_days_extends:
  "push_days h green ls ds = Inr out \<Longrightarrow> \<exists>more. out = ls @ more"
proof (induction ds arbitrary: ls)
  case Nil
  then show ?case by simp
next
  case (Cons d ds)
  from Cons.prems obtain block where "push_days h green (ls @ block) ds = Inr out"
    by (auto split: sum.splits)
  from Cons.IH [OF this] obtain more where "out = (ls @ block) @ more"
    by blast
  then have "out = ls @ (block @ more)" by simp
  then show ?case by blast
qed

lemma count_marker_blocks:
  "length (filter (\<lambda>l. l = ''[[cloudflare.daily]]'') (concat (map (daily_block h green) ds))) =
     length ds"
  by (induction ds) (simp_all add: daily_block_def)

lemma marker_not_in_head:
  "''[[cloudflare.daily]]'' \<notin>
     set (header_lines h nowIso nbytes green est @ section_lines h green a)"
  by (simp add: header_lines_def section_lines_def)

lemma count_marker_expected:
  "length (filter (\<lambda>l. l = ''[[cloudflare.daily]]'') (expected_lines h nowIso nbytes green est a)) =
     length (daily a)"
  using marker_not_in_head [of h nowIso nbytes green est a]
  by (auto simp: expected_lines_def count_marker_blocks filter_empty_conv)

lemma text_lines_one: "CHR 0x0A \<notin> set l \<Longrightarrow> text_lines l = [l]"
  by (induction l) auto

lemma text_lines_first:
  "CHR 0x0A \<notin> set l \<Longrightarrow> text_lines (l @ CHR 0x0A # rest) = l # text_lines rest"
  by (induction l) auto

lemma text_lines_join:
  "ls \<noteq> [] \<Longrightarrow> \<forall>l\<in>set ls. CHR 0x0A \<notin> set l \<Longrightarrow> text_lines (join_lines ls) = ls"
  by (induction ls rule: join_lines.induct) (simp_all add: text_lines_one text_lines_first)

lemma expected_lines_nonempty: "expected_lines h nowIso nbytes green est a \<noteq> []"
  by (simp add: expected_lines_def header_lines_def)

lemma buildCarbonTxt_composed:
  "list_all (day_converts h) (daily a) \<Longrightarrow>
     buildCarbonTxt h nowIso nbytes green est (Some a) =
       Inr (join_lines (expected_lines h nowIso nbytes green est a))"
  by (simp add: buildCarbonTxt_def carbon_lines_def push_days_blocks expected_lines_def)

lemma buildCarbonTxt_throws:
  "\<not> list_all (day_converts h) (daily a) \<Longrightarrow>
     \<exists>e. buildCarbonTxt h nowIso nbytes green est (Some a) = Inl e"
  using push_days_throws [of h "daily a" green
      "header_lines h nowIso nbytes green est @ section_lines h green a"]
  by (auto simp: buildCarbonTxt_def carbon_lines_def)

text \<open>
  Claim C6, as the code has it. For an analytics result whose days all convert to text
  (otherwise the composer throws, \<open>buildCarbonTxt_throws\<close>), the report is the header
  and the \<^verbatim>\<open>[cloudflare]\<close> section followed by the block of each day of the daily
  sequence, in the order of the sequence; a block carries its day's date, requests and
  bytes (see \<open>daily_block\<close>). No line before the blocks is the line
  \<^verbatim>\<open>[[cloudflare.daily]]\<close>, so the lines pushed hold that line exactly as many times as
  the sequence has entries. The returned text has these lines, and so this number of
  marker lines, whenever none of the lines pushed holds a line break itself.
\<close>

theorem daily_blocks_in_order:
  assumes "\<forall>d\<in>set (daily a). day_converts h d"
  shows "buildCarbonTxt h nowIso nbytes green est (Some a) =
           Inr (join_lines (expected_lines h nowIso nbytes green est a)) \<and>
         ''[[cloudflare.daily]]'' \<notin>
           set (header_lines h nowIso nbytes green est @ section_lines h green a) \<and>
         length (filter (\<lambda>l. l = ''[[cloudflare.daily]]'')
                   (expected_lines h nowIso nbytes green est a)) = length (daily a) \<and>
         ((\<forall>l\<in>set (expected_lines h nowIso nbytes green est a). CHR 0x0A \<notin> set l) \<longrightarrow>
            text_lines (join_lines (expected_lines h nowIso nbytes green est a)) =
              expected_lines h nowIso nbytes green est a \<and>
            marker_count (join_lines (expected_lines h nowIso nbytes green est a)) =
              length (daily a))"
proof -
  from assms have c: "list_all (day_converts h) (daily a)"
    by (simp add: list_all_iff)
  have "text_lines (join_lines (expected_lines h nowIso nbytes green est a)) =
              expected_lines h nowIso nbytes green est a \<and>
            marker_count (join_lines (expected_lines h nowIso nbytes green est a)) =
              length (daily a)"
    if "\<forall>l\<in>set (expected_lines h nowIso nbytes green est a). CHR 0x0A \<notin> set l"
    using that
    by (simp add: marker_count_def text_lines_join expected_lines_nonempty count_marker_expected)
  then show ?thesis
    using buildCarbonTxt_composed [OF c, of nowIso nbytes green est]
      marker_not_in_head [of h nowIso nbytes green est a]
      count_marker_expected [of h nowIso nbytes green est a]
    by blast
qed

theorem daily_blocks_in_order_witness:
  "buildCarbonTxt toy_host ''2024-01-31T12:00:01.000Z'' 350 False 700 (Some two_day_result) =
     Inr (join_lines
       (expected_lines toy_host ''2024-01-31T12:00:01.000Z'' 350 False 700 two_day_result)) \<and>
   marker_count (join_lines
       (expected_lines toy_host ''2024-01-31T12:00:01.000Z'' 350 False 700 two_day_result)) = 2 \<and>
   drop 17 (expected_lines toy_host ''2024-01-31T12:00:01.000Z'' 350 False 700 two_day_result) =
     [[], ''[[cloudflare.daily]]'', ''date = \"2024-01-01\"'', ''requests = 10'',
      ''bytes = 1000'', ''estimated_co2_grams = 2000'',
      [], ''[[cloudflare.daily]]'', ''date = \"2024-01-02\"'', ''requests = 5'',
      ''bytes = 500'', ''estimated_co2_grams = 1000'']"
proof -
  let ?ls = "expected_lines toy_host ''2024-01-31T12:00:01.000Z'' 350 False 700 two_day_result"
  have v: "?ls =
     [''# Generated by CO2.js GitHub Action'', ''version = \"0.3\"'',
      ''last_updated = \"2024-01-31T12:00:01.000Z\"'', [], ''[build]'',
      ''date = \"2024-01-31T12:00:01.000Z\"'', ''total_bytes = 350'',
      ''green_hosting = false'', ''estimated_co2_grams = 700'',
      [], ''[cloudflare]'', ''zone_id = \"zone\"'', ''since = \"2024-01-01\"'',
      ''until = \"2024-01-31\"'', ''requests = 15'', ''bytes = 1500'',
      ''estimated_co2_grams = 3000'',
      [], ''[[cloudflare.daily]]'', ''date = \"2024-01-01\"'', ''requests = 10'',
      ''bytes = 1000'', ''estimated_co2_grams = 2000'',
      [], ''[[cloudflare.daily]]'', ''date = \"2024-01-02\"'', ''requests = 5'',
      ''bytes = 500'', ''estimated_co2_grams = 1000'']"
    by (simp add: expected_lines_def header_lines_def section_lines_def daily_block_def
        text_of_def two_day_result_def toy_host_def decimal_def digit_def bool_text_def)
  have c: "\<forall>d\<in>set (daily two_day_result). day_converts toy_host d"
    by (simp add: two_day_result_def day_converts_def converts_def)
  have n: "\<forall>l\<in>set ?ls. CHR 0x0A \<notin> set l"
    unfolding v by simp
  have d: "length (daily two_day_result) = 2"
    by (simp add: two_day_result_def)
  from daily_blocks_in_order [OF c, of "''2024-01-31T12:00:01.000Z''" 350 False 700] n d
  have "buildCarbonTxt toy_host ''2024-01-31T12:00:01.000Z'' 350 False 700 (Some two_day_result) =
     Inr (join_lines ?ls)" and "marker_count (join_lines ?ls) = 2"
    by metis+
  moreover have "drop 17 ?ls =
     [[], ''[[cloudflare.daily]]'', ''date = \"2024-01-01\"'', ''requests = 10'',
      ''bytes = 1000'', ''estimated_co2_grams = 2000'',
      [], ''[[cloudflare.daily]]'', ''date = \"2024-01-02\"'', ''requests = 5'',
      ''bytes = 500'', ''estimated_co2_grams = 1000'']"
    unfolding v by simp
  ultimately show ?thesis by blast
qed

text \<open>
  Without that proviso the count fails for the text: a single day whose date holds line
  breaks around the text of a marker line gives a report with two marker lines.
\<close>

theorem line_break_in_date_adds_marker:
  "length (daily one_day_result) = 1 \<and>
   buildCarbonTxt toy_host ''2024-01-31T12:00:01.000Z'' 350 False 700 (Some one_day_result) =
     Inr one_day_report \<and>
   marker_count one_day_report = 2"
proof -
  have "buildCarbonTxt toy_host ''2024-01-31T12:00:01.000Z'' 350 False 700 (Some one_day_result) =
     Inr one_day_report"
    by (simp add: buildCarbonTxt_def carbon_lines_def header_lines_def section_lines_def
        one_day_result_def one_day_report_def broken_date_def toy_host_def decimal_def
        digit_def bool_text_def)
  moreover have "marker_count one_day_report = 2"
    by (simp add: marker_count_def one_day_report_def)
  ultimately show ?thesis by (simp add: one_day_result_def)
qed

lemma sublist_skip:
  assumes "CHR ''['' \<notin> set u"
  shows "sublist (CHR ''['' # p) (u @ v) = sublist (CHR ''['' # p) v"
  using assms by (induction u) (auto simp: sublist_Cons_right)

lemma sublist_absent:
  assumes "CHR ''['' \<notin> set u"
  shows "\<not> sublist (CHR ''['' # p) u"
  using sublist_skip [OF assms, of p "[]"] by simp

text \<open>
  Claim C7. Composed without analytics, the report is exactly the nine lines of the
  header, whatever the byte count, the green-hosting flag and the estimate: nothing of
  the analytics section and no per-day block is emitted, and the text contains neither
  \<^verbatim>\<open>[cloudflare]\<close> nor \<^verbatim>\<open>[[cloudflare.daily]]\<close>. The texts the run time inserts (the
  timestamp, the count, the estimate) are taken to hold no opening bracket, as
  \<^verbatim>\<open>toISOString\<close> and the conversion of a number to text never produce one.
\<close>

theorem no_cloudflare_section_without_analytics:
  assumes "CHR ''['' \<notin> set nowIso"
    and "CHR ''['' \<notin> set (num_text h nbytes)"
    and "CHR ''['' \<notin> set (num_text h est)"
  shows "\<exists>report.
     buildCarbonTxt h nowIso nbytes green est None = Inr report \<and>
     report =
       join_lines
         [''# Generated by CO2.js GitHub Action'',
          ''version = \"0.3\"'',
          ''last_updated = \"'' @ nowIso @ ''\"'',
          [],
          ''[build]'',
          ''date = \"'' @ nowIso @ ''\"'',
          ''total_bytes = '' @ num_text h nbytes,
          ''green_hosting = '' @ bool_text green,
          ''estimated_co2_grams = '' @ num_text h est] \<and>
     \<not> sublist ''[cloudflare]'' report \<and>
     \<not> sublist ''[[cloudflare.daily]]'' report"
  using assms
  by (simp add: buildCarbonTxt_def carbon_lines_def header_lines_def bool_text_def
      sublist_Cons_right sublist_skip sublist_absent)

theorem no_cloudflare_section_without_analytics_witness:
  "buildCarbonTxt toy_host ''2024-01-31T12:00:01.000Z'' 350 False 700 None =
     Inr (join_lines
         [''# Generated by CO2.js GitHub Action'',
          ''version = \"0.3\"'',
          ''last_updated = \"2024-01-31T12:00:01.000Z\"'',
          [],
          ''[build]'',
          ''date = \"2024-01-31T12:00:01.000Z\"'',
          ''total_bytes = 350'',
          ''green_hosting = false'',
          ''estimated_co2_grams = 700'']) \<and>
   \<not> sublist ''[cloudflare]'' (join_lines
         [''# Generated by CO2.js GitHub Action'',
          ''version = \"0.3\"'',
          ''last_updated = \"2024-01-31T12:00:01.000Z\"'',
          [],
          ''[build]'',
          ''date = \"2024-01-31T12:00:01.000Z\"'',
          ''total_bytes = 350'',
          ''green_hosting = false'',
          ''estimated_co2_grams = 700''])"
proof -
  have n: "num_text toy_host 350 = ''350''" and g: "num_text toy_host 700 = ''700''"
    by (simp_all add: toy_host_def decimal_def digit_def)
  have a: "CHR ''['' \<notin> set ''2024-01-31T12:00:01.000Z''"
    and b: "CHR ''['' \<notin> set (num_text toy_host 350)"
    and c: "CHR ''['' \<notin> set (num_text toy_host 700)"
    by (simp_all add: n g)
  from no_cloudflare_section_without_analytics [OF a b c, of False]
  show ?thesis by (simp add: n g bool_text_def)
qed

text \<open>
  Claim C8. Every composed report starts with the two header lines, the
  \<^verbatim>\<open>last_updated\<close> field, an empty line, the \<^verbatim>\<open>[build]\<close> heading and the \<^verbatim>\<open>date\<close>
  field, and both fields hold the same text: the one clock reading \<open>nowIso\<close>. Without
  analytics a report is always composed; with analytics, whenever the composer returns.
\<close>

theorem one_timestamp:
  "(\<exists>rest. buildCarbonTxt h nowIso nbytes green est None =
      Inr (''# Generated by CO2.js GitHub Action'' @ [CHR 0x0A] @
           ''version = \"0.3\"'' @ [CHR 0x0A] @
           ''last_updated = \"'' @ nowIso @ ''\"'' @ [CHR 0x0A] @
           [CHR 0x0A] @
           ''[build]'' @ [CHR 0x0A] @
           ''date = \"'' @ nowIso @ ''\"'' @ [CHR 0x0A] @ rest)) \<and>
   (\<forall>cf report. buildCarbonTxt h nowIso nbytes green est cf = Inr report \<longrightarrow>
      (\<exists>rest. report =
           ''# Generated by CO2.js GitHub Action'' @ [CHR 0x0A] @
           ''version = \"0.3\"'' @ [CHR 0x0A] @
           ''last_updated = \"'' @ nowIso @ ''\"'' @ [CHR 0x0A] @
           [CHR 0x0A] @
           ''[build]'' @ [CHR 0x0A] @
           ''date = \"'' @ nowIso @ ''\"'' @ [CHR 0x0A] @ rest))"
proof -
  have "\<exists>rest. report =
           ''# Generated by CO2.js GitHub Action'' @ [CHR 0x0A] @
           ''version = \"0.3\"'' @ [CHR 0x0A] @
           ''last_updated = \"'' @ nowIso @ ''\"'' @ [CHR 0x0A] @
           [CHR 0x0A] @
           ''[build]'' @ [CHR 0x0A] @
           ''date = \"'' @ nowIso @ ''\"'' @ [CHR 0x0A] @ rest"
    if t: "buildCarbonTxt h nowIso nbytes green est cf = Inr report" for cf report
  proof (cases cf)
    case None
    with t show ?thesis
      by (auto simp: buildCarbonTxt_def carbon_lines_def header_lines_def)
  next
    case (Some a)
    with t obtain out where
      o: "push_days h green
            (header_lines h nowIso nbytes green est @ section_lines h green a) (daily a) = Inr out"
      and x: "report = join_lines out"
      by (auto simp: buildCarbonTxt_def carbon_lines_def split: sum.splits)
    from push_days_extends [OF o] obtain more where
      "out = header_lines h nowIso nbytes green est @ section_lines h green a @ more"
      by auto
    with x show ?thesis
      by (simp add: header_lines_def section_lines_def)
  qed
  moreover have "\<exists>rest. buildCarbonTxt h nowIso nbytes green est None =
      Inr (''# Generated by CO2.js GitHub Action'' @ [CHR 0x0A] @
           ''version = \"0.3\"'' @ [CHR 0x0A] @
           ''last_updated = \"'' @ nowIso @ ''\"'' @ [CHR 0x0A] @
           [CHR 0x0A] @
           ''[build]'' @ [CHR 0x0A] @
           ''date = \"'' @ nowIso @ ''\"'' @ [CHR 0x0A] @ rest)"
    by (simp add: buildCarbonTxt_def carbon_lines_def header_lines_def)
  ultimately show ?thesis by blast
qed

theorem one_timestamp_witness:
  "\<exists>rest. buildCarbonTxt toy_host ''2024-01-31T12:00:01.000Z'' 350 False 700
       (Some two_day_result) =
     Inr (''# Generated by CO2.js GitHub Action'' @ [CHR 0x0A] @
           ''version = \"0.3\"'' @ [CHR 0x0A] @
           ''last_updated = \"2024-01-31T12:00:01.000Z\"'' @ [CHR 0x0A] @
           [CHR 0x0A] @
           ''[build]'' @ [CHR 0x0A] @
           ''date = \"2024-01-31T12:00:01.000Z\"'' @ [CHR 0x0A] @ rest)"
proof -
  have c: "list_all (day_converts toy_host) (daily two_day_result)"
    by (simp add: two_day_result_def day_converts_def converts_def)
  let ?t = "join_lines
       (expected_lines toy_host ''2024-01-31T12:00:01.000Z'' 350 False 700 two_day_result)"
  have b: "buildCarbonTxt toy_host ''2024-01-31T12:00:01.000Z'' 350 False 700
       (Some two_day_result) = Inr ?t"
    by (rule buildCarbonTxt_composed [OF c])
  from one_timestamp [of toy_host "''2024-01-31T12:00:01.000Z''" 350 False 700] b
  obtain rest where "?t =
           ''# Generated by CO2.js GitHub Action'' @ [CHR 0x0A] @
           ''version = \"0.3\"'' @ [CHR 0x0A] @
           ''last_updated = \"'' @ ''2024-01-31T12:00:01.000Z'' @ ''\"'' @ [CHR 0x0A] @
           [CHR 0x0A] @
           ''[build]'' @ [CHR 0x0A] @
           ''date = \"'' @ ''2024-01-31T12:00:01.000Z'' @ ''\"'' @ [CHR 0x0A] @ rest"
    by blast
  with b show ?thesis by auto
qed

section \<open>Properties of the fetcher: credentials\<close>

text \<open>
  Claim C5. With analytics enabled and the token or the zone id absent, the fetcher
  emits the one warning and returns \<^verbatim>\<open>null\<close>; no error reaches the caller.
\<close>

theorem missing_credentials_degrade:
  assumes "enabled cfg" and "apiToken cfg = None \<or> zoneId cfg = None"
  shows "fetchCloudflareAnalytics h net now cfg =
    ([''Cloudflare analytics enabled but api token or zone id not provided; skipping Cloudflare integration.''],
     Inr None)"
  using assms
  by (auto simp: fetchCloudflareAnalytics_def skipping_def split: option.splits)

theorem missing_credentials_degrade_witness:
  "enabled (full_config\<lparr>zoneId := None\<rparr>) \<and>
   fetchCloudflareAnalytics toy_host (answering two_days) noon (full_config\<lparr>zoneId := None\<rparr>) =
    ([''Cloudflare analytics enabled but api token or zone id not provided; skipping Cloudflare integration.''],
     Inr None)"
  using missing_credentials_degrade
    [of "full_config\<lparr>zoneId := None\<rparr>" toy_host "answering two_days" noon]
  by (simp add: full_config_def)

text \<open>
  Claim C9. An empty token or zone id is treated as an absent one: the fetcher gives
  the same result for the empty string as for \<^verbatim>\<open>undefined\<close>, and with analytics enabled
  that result is the warning and \<^verbatim>\<open>null\<close>.
\<close>

theorem empty_credentials_degrade:
  "fetchCloudflareAnalytics h net now (cfg\<lparr>apiToken := Some []\<rparr>) =
     fetchCloudflareAnalytics h net now (cfg\<lparr>apiToken := None\<rparr>) \<and>
   fetchCloudflareAnalytics h net now (cfg\<lparr>zoneId := Some []\<rparr>) =
     fetchCloudflareAnalytics h net now (cfg\<lparr>zoneId := None\<rparr>) \<and>
   (enabled cfg \<and> (apiToken cfg = Some [] \<or> zoneId cfg = Some []) \<longrightarrow>
      fetchCloudflareAnalytics h net now cfg =
        ([''Cloudflare analytics enabled but api token or zone id not provided; skipping Cloudflare integration.''],
         Inr None))"
  by (auto simp: fetchCloudflareAnalytics_def skipping_def split: option.splits)

theorem empty_credentials_degrade_witness:
  "enabled (full_config\<lparr>apiToken := Some []\<rparr>) \<and>
   fetchCloudflareAnalytics toy_host (answering two_days) noon
       (full_config\<lparr>apiToken := Some []\<rparr>) =
    ([''Cloudflare analytics enabled but api token or zone id not provided; skipping Cloudflare integration.''],
     Inr None)"
proof -
  have e: "enabled (full_config\<lparr>apiToken := Some []\<rparr>)"
    and t: "apiToken (full_config\<lparr>apiToken := Some []\<rparr>) = Some []"
    by (simp_all add: full_config_def)
  from empty_credentials_degrade
    [of toy_host "answering two_days" noon "full_config\<lparr>apiToken := Some []\<rparr>"] e t
  show ?thesis by blast
qed

section \<open>Properties of the byte accountant\<close>

lemma calculateBytes_missing:
  "disk p = None \<Longrightarrow> calculateBytes disk p = Inl (ErrorObj (''Path not found: '' @ p))"
  by (simp add: calculateBytes_def)

lemma calculateBytes_regular_file:
  "disk p = Some (File n) \<Longrightarrow> calculateBytes disk p = Inr n"
  by (simp add: calculateBytes_def)

lemma calculateBytes_empty_directory:
  "disk p = Some (Dir n []) \<Longrightarrow> calculateBytes disk p = Inr 0"
  by (simp add: calculateBytes_def)

lemma add_sizes_sum:
  "add_sizes acc files = acc + sum_list (map (\<lambda>f. stat_size (snd f)) files)"
  by (induction files arbitrary: acc) auto

lemma walk_sum:
  "plain v \<Longrightarrow> sum_list (map (\<lambda>f. stat_size (snd f)) (glob_node p v)) = regular_bytes v"
  "plain_entries es \<Longrightarrow>
     sum_list (map (\<lambda>f. stat_size (snd f)) (glob_entries p es)) = regular_bytes_entries es"
  by (induction p v and p es rule: glob_node_glob_entries.induct) auto

lemma calculateBytes_plain_directory:
  assumes "disk p = Some (Dir n es)" and "plain_entries es"
  shows "calculateBytes disk p = Inr (regular_bytes (Dir n es))"
  using assms walk_sum(2) [of es "[]"] by (simp add: calculateBytes_def add_sizes_sum)

text \<open>
  Claim C10. A path that exists and is neither a regular file nor a directory
  measures 0, and no error is raised.
\<close>

theorem special_node_measures_zero:
  assumes "disk p = Some st" and "\<not> isFile st" and "\<not> isDirectory st"
  shows "calculateBytes disk p = Inr 0"
  using assms by (simp add: calculateBytes_def)

theorem special_node_measures_zero_witness:
  "site_fs ''/dev/null'' = Some (Special 0) \<and> \<not> isFile (Special 0) \<and>
   \<not> isDirectory (Special 0) \<and> calculateBytes site_fs ''/dev/null'' = Inr 0"
  using special_node_measures_zero [of site_fs "''/dev/null''" "Special 0"]
  by (simp add: site_fs_def)

text \<open>
  Claim C3. For a regular file and for an empty directory the code returns what the
  claim says (the two lemmas above). For a directory the claim's sum is over every
  regular file outside \<^verbatim>\<open>.git\<close> and \<^verbatim>\<open>node_modules\<close>, and there the code falls short:
  the walk does not report entries whose name starts with a dot. On a directory with a
  100-byte \<^verbatim>\<open>.htaccess\<close> and a 250-byte \<^verbatim>\<open>index.html\<close> the code returns 250 where the
  claim's sum is 350, although the same dot file measured as a path of its own counts
  its 100 bytes. On trees without such entries code and claim agree
  (\<open>calculateBytes_plain_directory\<close>).
\<close>

theorem dot_files_not_counted:
  "calculateBytes site_fs ''site'' = Inr 250 \<and> regular_bytes site = 350 \<and>
   calculateBytes site_fs ''site/.htaccess'' = Inr 100"
  by (simp add: calculateBytes_def site_fs_def site_def dot_name_def ignored_def)

section \<open>Properties of a run\<close>

text \<open>
  Claim C2. When the input path does not exist, measuring fails with the error
  \<^verbatim>\<open>Path not found: <path>\<close>; the run reports exactly that message, once, through the
  failure signal, and writes no file.
\<close>

theorem missing_path_fails_run:
  assumes "fs w (input_or w ''path'' ''.'') = None"
  shows "calculateBytes (fs w) (input_or w ''path'' ''.'') =
           Inl (ErrorObj (''Path not found: '' @ input_or w ''path'' ''.'')) \<and>
         failures (run h w) = [''Path not found: '' @ input_or w ''path'' ''.''] \<and>
         written (run h w) = []"
  using assms by (simp add: run_def calculateBytes_missing Let_def)

theorem missing_path_fails_run_witness:
  "fs lost_world (input_or lost_world ''path'' ''.'') = None \<and>
   failures (run toy_host lost_world) = [''Path not found: dist''] \<and>
   written (run toy_host lost_world) = []"
  using missing_path_fails_run [of lost_world toy_host]
  by (simp add: lost_world_def site_world_def site_fs_def input_or_def)

section \<open>Properties of the fetcher: a failing fetch\<close>

text \<open>Whatever the network does, the fetcher returns: no error leaves it.\<close>

lemma fetch_never_throws:
  "\<exists>ws r. fetchCloudflareAnalytics h net now cfg = (ws, Inr r)"
  by (auto simp: fetchCloudflareAnalytics_def skipping_def
      split: option.splits prod.splits sum.splits)



lemma failures_append: "failures (xs @ ys) = failures xs @ failures ys"
  by (induction xs rule: failures.induct) simp_all

lemma written_append: "written (xs @ ys) = written xs @ written ys"
  by (induction xs rule: written.induct) simp_all

lemma warnings_append: "warnings (xs @ ys) = warnings xs @ warnings ys"
  by (induction xs rule: warnings.induct) simp_all

lemma failures_Warning: "failures (map Warning ws) = []"
  by (induction ws) simp_all

lemma written_Warning: "written (map Warning ws) = []"
  by (induction ws) simp_all

lemma warnings_Warning: "warnings (map Warning ws) = ws"
  by (induction ws) simp_all



lemma write_report_mkdir_throws:
  assumes "fs w destination = None" and "mkdirSync w destination = Some (ErrorObj m)"
  shows "failures (write_report h w destination carbonTxt) = [m] \<and>
         written (write_report h w destination carbonTxt) = []"
  using assms by (simp add: write_report_def)

lemma write_report_write_throws:
  assumes "fs w destination \<noteq> None \<or> mkdirSync w destination = None"
    and "writeFileSync w (path_join h destination ''report.txt'') carbonTxt = Some (ErrorObj m)"
  shows "failures (write_report h w destination carbonTxt) = [m] \<and>
         written (write_report h w destination carbonTxt) = []"
  using assms by (auto simp: write_report_def Let_def)

lemma run_after_fetch:
  assumes "calculateBytes (fs w) (input_or w ''path'' ''.'') = Inr n"
    and "fetchCloudflareAnalytics h (network w) (fetch_clock w) (cloudflareConfig w) = (ws, Inr r)"
    and "buildCarbonTxt h (build_clock w) (num_of_nat h n) (inputs w ''green-hosting'' = ''true'')
           (perByte h (Num (num_of_nat h n)) (inputs w ''green-hosting'' = ''true'')) r =
         Inr carbonTxt"
  shows "failures (run h w) = failures (write_report h w (input_or w ''destination'' ''.'') carbonTxt) \<and>
         warnings (run h w) =
           ws @ warnings (write_report h w (input_or w ''destination'' ''.'') carbonTxt) \<and>
         written (run h w) = written (write_report h w (input_or w ''destination'' ''.'') carbonTxt)"
  using assms
  by (simp add: run_def Let_def failures_append written_append warnings_append
      failures_Warning written_Warning warnings_Warning)

lemma run_write_throws:
  assumes "calculateBytes (fs w) (input_or w ''path'' ''.'') = Inr n"
    and "fetchCloudflareAnalytics h (network w) (fetch_clock w) (cloudflareConfig w) = (ws, Inr r)"
    and "buildCarbonTxt h (build_clock w) (num_of_nat h n) (inputs w ''green-hosting'' = ''true'')
           (perByte h (Num (num_of_nat h n)) (inputs w ''green-hosting'' = ''true'')) r =
         Inr carbonTxt"
    and "fs w (input_or w ''destination'' ''.'') \<noteq> None \<or>
         mkdirSync w (input_or w ''destination'' ''.'') = None"
    and "writeFileSync w (path_join h (input_or w ''destination'' ''.'') ''report.txt'') carbonTxt =
           Some (ErrorObj m)"
  shows "failures (run h w) = [m] \<and> written (run h w) = []"
  using run_after_fetch [OF assms(1-3)] write_report_write_throws [OF assms(4,5)]
  by simp



section \<open>Properties of the fetcher: normalization\<close>

lemma fold_groups_eq:
  "fold_groups h tr tb dl gs =
     (foldl (num_add h) tr
        (List.map_filter (\<lambda>g. field_number h (opt_get (opt_get g ''sum'') ''requests'')) gs),
      foldl (num_add h) tb
        (List.map_filter (\<lambda>g. field_number h (opt_get (opt_get g ''sum'') ''bytes'')) gs),
      dl @ map (\<lambda>g. \<lparr>date = group_date g, requests = group_requests h g,
                     bytes = group_bytes h g\<rparr>)
             (filter (\<lambda>g. truthy h (group_date g)) gs))"
proof (induction gs arbitrary: tr tb dl)
  case Nil
  show ?case by (simp add: List.map_filter_simps)
next
  case (Cons g gs)
  have r: "foldl (num_add h) tr
             (List.map_filter (\<lambda>g. field_number h (opt_get (opt_get g ''sum'') ''requests''))
                (g # gs)) =
           foldl (num_add h) (add_number h tr (group_requests h g))
             (List.map_filter (\<lambda>g. field_number h (opt_get (opt_get g ''sum'') ''requests'')) gs)"
    for tr
    by (cases "opt_get (opt_get g ''sum'') ''requests''")
       (simp_all add: group_requests_def nullish_or_def List.map_filter_simps)
  have b: "foldl (num_add h) tb
             (List.map_filter (\<lambda>g. field_number h (opt_get (opt_get g ''sum'') ''bytes''))
                (g # gs)) =
           foldl (num_add h) (add_number h tb (group_bytes h g))
             (List.map_filter (\<lambda>g. field_number h (opt_get (opt_get g ''sum'') ''bytes'')) gs)"
    for tb
    by (cases "opt_get (opt_get g ''sum'') ''bytes''")
       (simp_all add: group_bytes_def nullish_or_def List.map_filter_simps)
  show ?case
    unfolding r b by (simp add: Cons.IH)
qed

lemma groups_default:
  assumes "nullish (opt_get data ''data'') \<or>
     nullish (opt_get (opt_get data ''data'') ''viewer'') \<or>
     nullish (opt_get (opt_get (opt_get data ''data'') ''viewer'') ''zones'') \<or>
     nullish (opt_first (opt_get (opt_get (opt_get data ''data'') ''viewer'') ''zones'')) \<or>
     nullish (opt_get (opt_first (opt_get (opt_get (opt_get data ''data'') ''viewer'') ''zones''))
                ''httpRequests1dGroups'')"
  shows "groups_of data = Arr []"
proof -
  have n: "nullish v \<Longrightarrow> opt_get v k = Undefined" for v :: "'a jsval" and k
    by (simp add: opt_get_def)
  have f: "nullish v \<Longrightarrow> opt_first v = Undefined" for v :: "'a jsval"
    by (cases v) simp_all
  from assms
  have "nullish (opt_get (opt_first (opt_get (opt_get (opt_get data ''data'') ''viewer'') ''zones''))
                ''httpRequests1dGroups'')"
    by (auto simp: n f)
  then show ?thesis by (simp add: groups_of_def nullish_or_def)
qed

lemma not_iterable_throws:
  "not_iterable v \<Longrightarrow> iterate v = Inl (ErrorObj ''groups is not iterable'')"
  by (cases v) simp_all

lemma try_fetch_normalized:
  assumes "net (analytics_request token zone cfg now) = Inr resp"
    and "ok resp" and "json resp = Inr data"
    and "errors_present h data = Inr False"
    and "groups_of data = Arr gs"
  shows "try_fetch h net token zone cfg now =
     ([], Inr (Some
        \<lparr>zone_id = zone,
         time_range_since = resolved_since cfg now,
         time_range_until = resolved_until cfg now,
         totals_requests =
           num_sum h (List.map_filter
             (\<lambda>g. field_number h (opt_get (opt_get g ''sum'') ''requests'')) gs),
         totals_bytes =
           num_sum h (List.map_filter
             (\<lambda>g. field_number h (opt_get (opt_get g ''sum'') ''bytes'')) gs),
         daily =
           map (\<lambda>g. \<lparr>date = group_date g, requests = group_requests h g,
                      bytes = group_bytes h g\<rparr>)
             (filter (\<lambda>g. truthy h (group_date g)) gs)\<rparr>))"
  using assms by (simp add: try_fetch_def fold_groups_eq num_sum_def)

lemma try_fetch_not_iterable:
  assumes "net (analytics_request token zone cfg now) = Inr resp"
    and "ok resp" and "json resp = Inr data"
    and "errors_present h data = Inr False"
    and "not_iterable (groups_of data)"
  shows "try_fetch h net token zone cfg now = ([], Inl (ErrorObj ''groups is not iterable''))"
  using assms by (simp add: try_fetch_def not_iterable_throws)

text \<open>
  Claim C4, as the code has it. Take a response that passed validation (success
  status, a body that parsed, no errors found).
  \<^item> When its daily groups are an array, the fetcher returns, without a warning, the
    result whose totals are the sums over all groups of the \<^verbatim>\<open>requests\<close> and the
    \<^verbatim>\<open>bytes\<close> sub-fields, added from 0 in the order of the groups in the run time's
    arithmetic, a missing sub-field counting 0 and a sub-field that is not a number
    not being added; its daily breakdown holds, in order, the groups with a date (one
    that is not missing and not otherwise falsy).
  \<^item> Daily groups that are absent or \<^verbatim>\<open>null\<close> at any level of the path to them are the
    empty array.
  \<^item> When the daily groups are present and not iterable (a number, a boolean, an
    object), the loop throws, and the \<^verbatim>\<open>catch\<close> of the fetcher turns that into a
    warning and \<^verbatim>\<open>null\<close>.
\<close>

theorem normalization_totals:
  assumes "enabled cfg" and "apiToken cfg = Some token" and "token \<noteq> []"
    and "zoneId cfg = Some zone" and "zone \<noteq> []"
    and "net (analytics_request token zone cfg now) = Inr resp"
    and "ok resp" and "json resp = Inr data"
    and "errors_present h data = Inr False"
  shows
   "(\<forall>gs. groups_of data = Arr gs \<longrightarrow>
      fetchCloudflareAnalytics h net now cfg =
       ([], Inr (Some
          \<lparr>zone_id = zone,
           time_range_since = resolved_since cfg now,
           time_range_until = resolved_until cfg now,
           totals_requests =
             num_sum h (List.map_filter
               (\<lambda>g. field_number h (opt_get (opt_get g ''sum'') ''requests'')) gs),
           totals_bytes =
             num_sum h (List.map_filter
               (\<lambda>g. field_number h (opt_get (opt_get g ''sum'') ''bytes'')) gs),
           daily =
             map (\<lambda>g. \<lparr>date = group_date g, requests = group_requests h g,
                        bytes = group_bytes h g\<rparr>)
               (filter (\<lambda>g. truthy h (group_date g)) gs)\<rparr>))) \<and>
    (nullish (opt_get data ''data'') \<or>
     nullish (opt_get (opt_get data ''data'') ''viewer'') \<or>
     nullish (opt_get (opt_get (opt_get data ''data'') ''viewer'') ''zones'') \<or>
     nullish (opt_first (opt_get (opt_get (opt_get data ''data'') ''viewer'') ''zones'')) \<or>
     nullish (opt_get (opt_first (opt_get (opt_get (opt_get data ''data'') ''viewer'') ''zones''))
                ''httpRequests1dGroups'')
      \<longrightarrow> groups_of data = Arr []) \<and>
    (not_iterable (groups_of data) \<longrightarrow>
      try_fetch h net token zone cfg now = ([], Inl (ErrorObj ''groups is not iterable'')) \<and>
      fetchCloudflareAnalytics h net now cfg =
        ([''Failed to fetch Cloudflare analytics: groups is not iterable''], Inr None))"
proof (intro conjI allI impI)
  fix gs
  assume a: "groups_of data = Arr gs"
  from try_fetch_normalized [of net token zone cfg now resp data h gs] assms a
  show "fetchCloudflareAnalytics h net now cfg =
       ([], Inr (Some
          \<lparr>zone_id = zone,
           time_range_since = resolved_since cfg now,
           time_range_until = resolved_until cfg now,
           totals_requests =
             num_sum h (List.map_filter
               (\<lambda>g. field_number h (opt_get (opt_get g ''sum'') ''requests'')) gs),
           totals_bytes =
             num_sum h (List.map_filter
               (\<lambda>g. field_number h (opt_get (opt_get g ''sum'') ''bytes'')) gs),
           daily =
             map (\<lambda>g. \<lparr>date = group_date g, requests = group_requests h g,
                        bytes = group_bytes h g\<rparr>)
               (filter (\<lambda>g. truthy h (group_date g)) gs)\<rparr>))"
    by (simp add: fetchCloudflareAnalytics_def)
next
  assume "nullish (opt_get data ''data'') \<or>
     nullish (opt_get (opt_get data ''data'') ''viewer'') \<or>
     nullish (opt_get (opt_get (opt_get data ''data'') ''viewer'') ''zones'') \<or>
     nullish (opt_first (opt_get (opt_get (opt_get data ''data'') ''viewer'') ''zones'')) \<or>
     nullish (opt_get (opt_first (opt_get (opt_get (opt_get data ''data'') ''viewer'') ''zones''))
                ''httpRequests1dGroups'')"
  then show "groups_of data = Arr []" by (rule groups_default)
next
  assume n: "not_iterable (groups_of data)"
  from try_fetch_not_iterable [of net token zone cfg now resp data h] assms n
  show "try_fetch h net token zone cfg now = ([], Inl (ErrorObj ''groups is not iterable''))"
    by simp
next
  assume n: "not_iterable (groups_of data)"
  from try_fetch_not_iterable [of net token zone cfg now resp data h] assms n
  show "fetchCloudflareAnalytics h net now cfg =
        ([''Failed to fetch Cloudflare analytics: groups is not iterable''], Inr None)"
    by (simp add: fetchCloudflareAnalytics_def)
qed

text \<open>
  A successful response whose daily groups are the number 5 makes the loop of the
  normalization throw.
\<close>

theorem odd_groups_throw:
  "ok \<lparr>ok = True, status = 200::int, statusText = ''OK'', json = Inr odd_groups\<rparr> \<and>
   errors_present toy_host odd_groups = Inr False \<and>
   groups_of odd_groups = Num 5 \<and>
   try_fetch toy_host (answering odd_groups) ''token'' ''zone'' full_config noon =
     ([], Inl (ErrorObj ''groups is not iterable'')) \<and>
   fetchCloudflareAnalytics toy_host (answering odd_groups) noon full_config =
     ([''Failed to fetch Cloudflare analytics: groups is not iterable''], Inr None)"
  by (simp add: fetchCloudflareAnalytics_def try_fetch_def answering_def odd_groups_def
      errors_present_def groups_of_def opt_get_def nullish_or_def full_config_def)

theorem normalization_totals_witness:
  "enabled full_config \<and>
   errors_present toy_host two_days = Inr False \<and>
   fetchCloudflareAnalytics toy_host (answering two_days) noon full_config =
     ([], Inr (Some
        \<lparr>zone_id = ''zone'',
         time_range_since = ''2024-01-01'',
         time_range_until = ''2024-01-31'',
         totals_requests = 16,
         totals_bytes = 1500,
         daily =
           [\<lparr>date = Str ''2024-01-01'', requests = Num 10, bytes = Num 1000\<rparr>,
            \<lparr>date = Str ''2024-01-02'', requests = Num 5, bytes = Num 500\<rparr>]\<rparr>)) \<and>
   not_iterable (groups_of odd_groups) \<and>
   fetchCloudflareAnalytics toy_host (answering odd_groups) noon full_config =
     ([''Failed to fetch Cloudflare analytics: groups is not iterable''], Inr None)"
proof -
  let ?gs = "[Obj [(''dimensions'', Obj [(''date'', Str ''2024-01-01'')]),
                 (''sum'', Obj [(''requests'', Num 10), (''bytes'', Num 1000)])],
            Obj [(''dimensions'', Obj [(''date'', Str ''2024-01-02'')]),
                 (''sum'', Obj [(''requests'', Num 5), (''bytes'', Num 500)])],
            Obj [(''sum'', Obj [(''requests'', Num (1::int))])]]"
  let ?resp = "\<lparr>ok = True, status = 200::int, statusText = ''OK'', json = Inr two_days\<rparr>"
  let ?odd = "\<lparr>ok = True, status = 200::int, statusText = ''OK'', json = Inr odd_groups\<rparr>"
  have e: "enabled full_config" and t: "apiToken full_config = Some ''token''"
    and z: "zoneId full_config = Some ''zone''"
    by (simp_all add: full_config_def)
  have n: "answering two_days (analytics_request ''token'' ''zone'' full_config noon) = Inr ?resp"
    and n': "answering odd_groups (analytics_request ''token'' ''zone'' full_config noon) = Inr ?odd"
    by (simp_all add: answering_def)
  have p: "errors_present toy_host two_days = Inr False"
    and p': "errors_present toy_host odd_groups = Inr False"
    by (simp_all add: errors_present_def two_days_def odd_groups_def)
  have g: "groups_of two_days = Arr ?gs"
    by (simp add: groups_of_def two_days_def opt_get_def nullish_or_def)
  have g': "not_iterable (groups_of odd_groups)"
    by (simp add: groups_of_def odd_groups_def opt_get_def nullish_or_def)
  have s: "resolved_since full_config noon = ''2024-01-01''"
    and u: "resolved_until full_config noon = ''2024-01-31''"
    by (simp_all add: resolved_since_def resolved_until_def full_config_def noon_def)
  from normalization_totals [of full_config "''token''" "''zone''" "answering two_days" noon
      ?resp two_days toy_host] e t z n p g
  have "fetchCloudflareAnalytics toy_host (answering two_days) noon full_config =
     ([], Inr (Some
        \<lparr>zone_id = ''zone'',
         time_range_since = resolved_since full_config noon,
         time_range_until = resolved_until full_config noon,
         totals_requests =
           num_sum toy_host (List.map_filter
             (\<lambda>g. field_number toy_host (opt_get (opt_get g ''sum'') ''requests'')) ?gs),
         totals_bytes =
           num_sum toy_host (List.map_filter
             (\<lambda>g. field_number toy_host (opt_get (opt_get g ''sum'') ''bytes'')) ?gs),
         daily =
           map (\<lambda>g. \<lparr>date = group_date g, requests = group_requests toy_host g,
                      bytes = group_bytes toy_host g\<rparr>)
             (filter (\<lambda>g. truthy toy_host (group_date g)) ?gs)\<rparr>))"
    by simp
  then have a: "fetchCloudflareAnalytics toy_host (answering two_days) noon full_config =
     ([], Inr (Some
        \<lparr>zone_id = ''zone'',
         time_range_since = ''2024-01-01'',
         time_range_until = ''2024-01-31'',
         totals_requests = 16,
         totals_bytes = 1500,
         daily =
           [\<lparr>date = Str ''2024-01-01'', requests = Num 10, bytes = Num 1000\<rparr>,
            \<lparr>date = Str ''2024-01-02'', requests = Num 5, bytes = Num 500\<rparr>]\<rparr>))"
    by (simp add: s u opt_get_def group_date_def group_requests_def group_bytes_def
        nullish_or_def num_sum_def List.map_filter_simps toy_host_def)
  from normalization_totals [of full_config "''token''" "''zone''" "answering odd_groups" noon
      ?odd odd_groups toy_host] e t z n' p' g'
  have b: "fetchCloudflareAnalytics toy_host (answering odd_groups) noon full_config =
     ([''Failed to fetch Cloudflare analytics: groups is not iterable''], Inr None)"
    by simp
  from e p a g' b show ?thesis by simp
qed

end
